theory Spec2Isabelle
  imports Main "HOL-Library.AList"
begin

section \<open>The PDF object graph as the editor sees it\<close>

text \<open>
  The editor (\<^verbatim>\<open>Edit_PDF_fields.py\<close>) never parses PDF syntax itself: it works on the
  object graph that pikepdf hands out and on the page list PyMuPDF reports. Both
  libraries are outside the repository; their objects are modelled here as the libraries
  hand them to the calls the source makes:
  \<^item> a value is a null, boolean, integer, real, string, name, array, dictionary or an
    indirect reference \<open>n g R\<close>;
  \<^item> an object handle either is an indirect object, known by its object and generation
    number, or a direct value that lives inside an indirect object at some path of keys
    and indices;
  \<^item> a key whose value is null, or a reference to an object the document does not have,
    reads as a key that is not there;
  \<^item> integers, reals, booleans and null come out of a container as plain Python values,
    every other value as a pikepdf object;
  \<^item> writing through a handle changes the object it names in the object table.
\<close>

text \<open>
  A Python float. The floats with an integer value are kept exactly; every other float
  is an opaque index whose printed form is a parameter of the model.
\<close>

datatype pyfloat = Whole int | NonWhole nat

datatype pobj =
    PNull
  | PBool bool
  | PInt int
  | PReal pyfloat
  | PStr string
  | PName string
  | PArray "pobj list"
  | PDict "(string \<times> pobj) list"
  | PRef nat nat

datatype step = Key string | Idx nat

datatype handle = Indirect nat nat | Direct nat "step list"

datatype exc =
    TypeError
  | ValueError
  | KeyError
  | IndexError
  | AttributeError
  | PdfError nat

text \<open>
  A parsed document: the object table (object number to value), the object number of
  the catalog (\<^verbatim>\<open>pdf.Root\<close>) and the page list \<^verbatim>\<open>pdf.pages\<close> as the object number and
  generation of each page object, in document order.
\<close>

record pdf =
  objects :: "(nat \<times> pobj) list"
  Root :: nat
  pages :: "(nat \<times> nat) list"

fun get_path :: "pobj \<Rightarrow> step list \<Rightarrow> pobj option" where
  "get_path v [] = Some v"
| "get_path (PDict kvs) (Key k # p) =
     (case map_of kvs k of None \<Rightarrow> None | Some w \<Rightarrow> get_path w p)"
| "get_path (PArray xs) (Idx i # p) =
     (if i < length xs then get_path (xs ! i) p else None)"
| "get_path _ _ = None"

fun upd_path :: "(pobj \<Rightarrow> pobj) \<Rightarrow> pobj \<Rightarrow> step list \<Rightarrow> pobj" where
  "upd_path f v [] = f v"
| "upd_path f (PDict kvs) (Key k # p) =
     (case map_of kvs k of
        None \<Rightarrow> PDict kvs
      | Some w \<Rightarrow> PDict (AList.update k (upd_path f w p) kvs))"
| "upd_path f (PArray xs) (Idx i # p) =
     (if i < length xs then PArray (xs[i := upd_path f (xs ! i) p]) else PArray xs)"
| "upd_path f v _ = v"

fun loc :: "handle \<Rightarrow> nat \<times> step list" where
  "loc (Indirect n g) = (n, [])"
| "loc (Direct n p) = (n, p)"

text \<open>The value a handle stands for; a reference to a missing object reads as null.\<close>

definition deref :: "pdf \<Rightarrow> handle \<Rightarrow> pobj" where
  "deref d h =
     (case map_of (objects d) (fst (loc h)) of
        None \<Rightarrow> PNull
      | Some v \<Rightarrow> (case get_path v (snd (loc h)) of None \<Rightarrow> PNull | Some w \<Rightarrow> w))"

text \<open>Writing through a handle: the owning entry of the object table is replaced.\<close>

definition store :: "pdf \<Rightarrow> handle \<Rightarrow> (pobj \<Rightarrow> pobj) \<Rightarrow> pdf" where
  "store d h f =
     (case map_of (objects d) (fst (loc h)) of
        None \<Rightarrow> d
      | Some v \<Rightarrow> d\<lparr>objects := AList.update (fst (loc h)) (upd_path f v (snd (loc h))) (objects d)\<rparr>)"

text \<open>
  The handle of a member of a container: an indirect reference is followed (the handle
  is then the indirect object), anything else is a direct value inside the container.
\<close>

definition child :: "pdf \<Rightarrow> handle \<Rightarrow> step \<Rightarrow> handle" where
  "child d h st =
     (let c = Direct (fst (loc h)) (snd (loc h) @ [st])
      in case deref d c of PRef m g \<Rightarrow> Indirect m g | _ \<Rightarrow> c)"

text \<open>What is written when a handle is assigned into a container.\<close>

definition encode :: "pdf \<Rightarrow> handle \<Rightarrow> pobj" where
  "encode d h = (case h of Indirect n g \<Rightarrow> PRef n g | Direct n p \<Rightarrow> deref d h)"

text \<open>
  \<^verbatim>\<open>getattr(obj, "objid", None)\<close>. No pikepdf object has an attribute of that name, be
  it direct or indirect (on a dictionary the attribute would be the key
  \<^verbatim>\<open>/objid\<close>, which the dictionaries met here do not have), and no plain Python value
  has: the result is \<^verbatim>\<open>None\<close>, and \<^verbatim>\<open>hasattr(obj, "objid")\<close> is false.
\<close>

definition objid :: "handle \<Rightarrow> nat option" where
  "objid obj = None"

text \<open>\<^verbatim>\<open>is_ref(obj)\<close>, that is \<^verbatim>\<open>hasattr(obj, "objid")\<close>.\<close>

definition is_ref :: "handle \<Rightarrow> bool" where
  "is_ref obj = (objid obj \<noteq> None)"

text \<open>
  The values that leave a container as plain Python values: numbers, booleans and null
  (which is \<^verbatim>\<open>None\<close>).
\<close>

fun native :: "pobj \<Rightarrow> bool" where
  "native PNull = True"
| "native (PInt i) = True"
| "native (PReal f) = True"
| "native (PBool b) = True"
| "native v = False"

text \<open>
  \<^verbatim>\<open>obj.objgen\<close> of a value taken out of a container: every pikepdf object has it, the
  object and generation number when it is indirect and \<^verbatim>\<open>(0, 0)\<close> when it is direct;
  a plain Python value has no such attribute (\<^verbatim>\<open>None\<close> here).
\<close>

definition objgen :: "pdf \<Rightarrow> handle \<Rightarrow> (nat \<times> nat) option" where
  "objgen d h =
     (if native (deref d h) then None
      else Some (case h of Indirect n g \<Rightarrow> (n, g) | Direct n p \<Rightarrow> (0, 0)))"

text \<open>\<^verbatim>\<open>pdf.get_object(objid)\<close>: the indirect object of that number.\<close>

definition get_object :: "pdf \<Rightarrow> nat \<Rightarrow> handle" where
  "get_object d n = Indirect n 0"

subsection \<open>The dictionary and array operations the editor calls\<close>

text \<open>
  The member of a dictionary under a key, if the dictionary has it: a key whose value is
  null, or refers to an object that is missing, counts as not there.
\<close>

definition member_of :: "pdf \<Rightarrow> handle \<Rightarrow> (string \<times> pobj) list \<Rightarrow> string \<Rightarrow> handle option" where
  "member_of d h kvs k =
     (if map_of kvs k = None \<or> deref d (child d h (Key k)) = PNull then None
      else Some (child d h (Key k)))"

text \<open>\<^verbatim>\<open>key in obj\<close>\<close>

definition obj_contains :: "pdf \<Rightarrow> handle \<Rightarrow> string \<Rightarrow> exc + bool" where
  "obj_contains d h k =
     (case deref d h of
        PDict kvs \<Rightarrow> Inr (member_of d h kvs k \<noteq> None)
      | PArray xs \<Rightarrow> Inr False
      | _ \<Rightarrow> Inl ValueError)"

text \<open>\<^verbatim>\<open>obj.get(key)\<close>: the member's handle, \<^verbatim>\<open>None\<close> when the key is absent.\<close>

definition obj_get :: "pdf \<Rightarrow> handle \<Rightarrow> string \<Rightarrow> exc + handle option" where
  "obj_get d h k =
     (case deref d h of
        PDict kvs \<Rightarrow> Inr (member_of d h kvs k)
      | _ \<Rightarrow> Inl ValueError)"

text \<open>\<^verbatim>\<open>obj[key]\<close>\<close>

definition obj_getitem :: "pdf \<Rightarrow> handle \<Rightarrow> string \<Rightarrow> exc + handle" where
  "obj_getitem d h k =
     (case deref d h of
        PDict kvs \<Rightarrow> (case member_of d h kvs k of None \<Rightarrow> Inl KeyError | Some c \<Rightarrow> Inr c)
      | _ \<Rightarrow> Inl ValueError)"

text \<open>\<^verbatim>\<open>obj[key] = value\<close>\<close>

definition obj_setitem :: "pdf \<Rightarrow> handle \<Rightarrow> string \<Rightarrow> pobj \<Rightarrow> exc + pdf" where
  "obj_setitem d h k v =
     (case deref d h of
        PDict kvs \<Rightarrow> Inr (store d h (\<lambda>_. PDict (AList.update k v kvs)))
      | _ \<Rightarrow> Inl ValueError)"

text \<open>
  \<^verbatim>\<open>obj.name = value\<close>: on a dictionary an attribute is a key, so the key
  \<^verbatim>\<open>/name\<close> is assigned, whatever the name; any other object has no attribute to set.
\<close>

definition obj_setattr :: "pdf \<Rightarrow> handle \<Rightarrow> string \<Rightarrow> pobj \<Rightarrow> exc + pdf" where
  "obj_setattr d h name v =
     (case deref d h of
        PDict kvs \<Rightarrow> obj_setitem d h (''/'' @ name) v
      | _ \<Rightarrow> Inl AttributeError)"

text \<open>\<^verbatim>\<open>del obj[key]\<close>\<close>

definition obj_delitem :: "pdf \<Rightarrow> handle \<Rightarrow> string \<Rightarrow> exc + pdf" where
  "obj_delitem d h k =
     (case deref d h of
        PDict kvs \<Rightarrow>
          (if member_of d h kvs k = None then Inl KeyError
           else Inr (store d h (\<lambda>_. PDict (AList.delete k kvs))))
      | _ \<Rightarrow> Inl ValueError)"

text \<open>
  \<^verbatim>\<open>for x in obj\<close>: the members of an array in order. A dictionary iterates over its
  keys, which are plain strings and fail at the first use the editor makes of them, so
  only the empty dictionary gets through (with no iteration at all).
\<close>

definition obj_iter :: "pdf \<Rightarrow> handle \<Rightarrow> exc + handle list" where
  "obj_iter d h =
     (case deref d h of
        PArray xs \<Rightarrow> Inr (map (\<lambda>i. child d h (Idx i)) [0..<length xs])
      | PDict kvs \<Rightarrow> (if kvs = [] then Inr [] else Inl AttributeError)
      | _ \<Rightarrow> Inl TypeError)"

text \<open>\<^verbatim>\<open>array.append(value)\<close>\<close>

definition arr_append :: "pdf \<Rightarrow> handle \<Rightarrow> pobj \<Rightarrow> exc + pdf" where
  "arr_append d h v =
     (case deref d h of
        PArray xs \<Rightarrow> Inr (store d h (\<lambda>_. PArray (xs @ [v])))
      | _ \<Rightarrow> Inl TypeError)"

text \<open>
  \<^verbatim>\<open>value == "text"\<close> for the result of \<^verbatim>\<open>obj.get(key)\<close>: a string or a name with
  that text; \<^verbatim>\<open>None\<close> and every other kind of value differ from a string.
\<close>

definition eq_str :: "pdf \<Rightarrow> handle option \<Rightarrow> string \<Rightarrow> bool" where
  "eq_str d v s =
     (case v of
        None \<Rightarrow> False
      | Some h \<Rightarrow> (case deref d h of PStr t \<Rightarrow> t = s | PName t \<Rightarrow> t = s | _ \<Rightarrow> False))"

text \<open>
  \<^verbatim>\<open>not widget\<close>: true of \<^verbatim>\<open>None\<close> and of an object of length zero (a dictionary without
  keys, an empty array).
\<close>

definition py_not :: "pdf \<Rightarrow> handle option \<Rightarrow> bool" where
  "py_not d w =
     (case w of
        None \<Rightarrow> True
      | Some h \<Rightarrow> (case deref d h of PDict kvs \<Rightarrow> kvs = [] | PArray xs \<Rightarrow> xs = [] | _ \<Rightarrow> False))"

text \<open>\<^verbatim>\<open>pdf.pages[i]\<close> with Python's indexing (a negative index counts from the end).\<close>

definition pages_getitem :: "pdf \<Rightarrow> int \<Rightarrow> exc + handle" where
  "pages_getitem d i =
     (let n = int (length (pages d)); j = (if i < 0 then n + i else i)
      in if 0 \<le> j \<and> j < n
         then Inr (Indirect (fst (pages d ! nat j)) (snd (pages d ! nat j)))
         else Inl IndexError)"

section \<open>Locating a field: \<^verbatim>\<open>load_widget\<close>\<close>

text \<open>
  The inner helper \<^verbatim>\<open>resolve\<close>: an object with an \<^verbatim>\<open>objid\<close> is fetched from the
  document by that number, anything else is returned as it is.
\<close>

definition resolve :: "pdf \<Rightarrow> handle \<Rightarrow> handle" where
  "resolve d obj = (case objid obj of Some n \<Rightarrow> get_object d n | None \<Rightarrow> obj)"

text \<open>The loop over \<^verbatim>\<open>field_obj["/Kids"]\<close>: the first kid whose \<^verbatim>\<open>/T\<close> is the name.\<close>

fun find_kid :: "pdf \<Rightarrow> string \<Rightarrow> handle list \<Rightarrow> exc + handle option" where
  "find_kid d field_name [] = Inr None"
| "find_kid d field_name (kid # kids) =
     (let kid_obj = resolve d kid
      in case obj_get d kid_obj ''/T'' of
           Inl e \<Rightarrow> Inl e
         | Inr t \<Rightarrow>
             if eq_str d t field_name then Inr (Some kid_obj)
             else find_kid d field_name kids)"

text \<open>The kids of one entry of the field list, when it has a \<^verbatim>\<open>/Kids\<close> key.\<close>

definition search_kids :: "pdf \<Rightarrow> string \<Rightarrow> handle \<Rightarrow> exc + handle option" where
  "search_kids d field_name field_obj =
     (case obj_contains d field_obj ''/Kids'' of
        Inl e \<Rightarrow> Inl e
      | Inr has_kids \<Rightarrow>
          if has_kids then
            (case obj_getitem d field_obj ''/Kids'' of
               Inl e \<Rightarrow> Inl e
             | Inr kids \<Rightarrow>
                 (case obj_iter d kids of
                    Inl e \<Rightarrow> Inl e
                  | Inr ks \<Rightarrow> find_kid d field_name ks))
          else Inr None)"

text \<open>
  The loop over \<^verbatim>\<open>form.Fields\<close>. The test of the entry's own name is not in an
  \<^verbatim>\<open>else\<close> branch: it also runs for an entry with kids none of which matched.
\<close>

fun find_field :: "pdf \<Rightarrow> string \<Rightarrow> handle list \<Rightarrow> exc + handle option" where
  "find_field d field_name [] = Inr None"
| "find_field d field_name (field # rest) =
     (let field_obj = resolve d field
      in case search_kids d field_name field_obj of
           Inl e \<Rightarrow> Inl e
         | Inr (Some kid_obj) \<Rightarrow> Inr (Some kid_obj)
         | Inr None \<Rightarrow>
             (case obj_get d field_obj ''/T'' of
                Inl e \<Rightarrow> Inl e
              | Inr t \<Rightarrow>
                  if eq_str d t field_name then Inr (Some field_obj)
                  else find_field d field_name rest))"

definition load_widget :: "pdf \<Rightarrow> string \<Rightarrow> exc + handle option" where
  "load_widget d field_name =
     (let root = Indirect (Root d) 0
      in case obj_contains d root ''/AcroForm'' of
           Inl e \<Rightarrow> Inl e
         | Inr has_form \<Rightarrow>
             if \<not> has_form then Inr None
             else
               (let form = child d root (Key ''/AcroForm'')
                in case obj_contains d form ''/Fields'' of
                     Inl e \<Rightarrow> Inl e
                   | Inr has_fields \<Rightarrow>
                       if \<not> has_fields then Inr None
                       else
                         (case obj_iter d (child d form (Key ''/Fields'')) of
                            Inl e \<Rightarrow> Inl e
                          | Inr fs \<Rightarrow> find_field d field_name fs)))"

section \<open>Page binding\<close>

text \<open>\<^verbatim>\<open>any(getattr(a, "objid", None) == w_id for a in page.Annots)\<close>\<close>

definition any_objid :: "nat \<Rightarrow> handle list \<Rightarrow> bool" where
  "any_objid w_id annots = list_ex (\<lambda>a. objid a = Some w_id) annots"

text \<open>
  \<^verbatim>\<open>fix_annots_page_binding\<close>. Its last step is guarded by \<^verbatim>\<open>if w_id is not None\<close>
  with \<^verbatim>\<open>w_id = getattr(widget, "objid", None)\<close>, which is \<^verbatim>\<open>None\<close> for every
  widget: the scan of \<^verbatim>\<open>page.Annots\<close> and the append are written out below as the
  source has them, and are never reached.
\<close>

definition fix_annots_page_binding :: "pdf \<Rightarrow> handle \<Rightarrow> int \<Rightarrow> exc + pdf" where
  "fix_annots_page_binding d widget page_index =
     (case pages_getitem d page_index of
        Inl e \<Rightarrow> Inl e
      | Inr page \<Rightarrow>
          (case obj_setitem d widget ''/P'' (encode d page) of
             Inl e \<Rightarrow> Inl e
           | Inr d1 \<Rightarrow>
               (case obj_contains d1 page ''/Annots'' of
                  Inl e \<Rightarrow> Inl e
                | Inr has_annots \<Rightarrow>
                    (case (if has_annots then Inr d1
                           else obj_setitem d1 page ''/Annots'' (PArray [])) of
                       Inl e \<Rightarrow> Inl e
                     | Inr d2 \<Rightarrow>
                         (case objid widget of
                            None \<Rightarrow> Inr d2
                          | Some w_id \<Rightarrow>
                              (case obj_getitem d2 page ''/Annots'' of
                                 Inl e \<Rightarrow> Inl e
                               | Inr annots \<Rightarrow>
                                   (case obj_iter d2 annots of
                                      Inl e \<Rightarrow> Inl e
                                    | Inr as \<Rightarrow>
                                        if any_objid w_id as then Inr d2
                                        else arr_append d2 annots (encode d2 widget))))))))"

text \<open>
  The helper \<^verbatim>\<open>set_invalid_page_reference\<close>, which no button calls. It names
  \<^verbatim>\<open>pikepdf.ObjectRef\<close>, which pikepdf does not have, so it raises before it writes.
\<close>

definition set_invalid_page_reference :: "pdf \<Rightarrow> handle \<Rightarrow> nat \<Rightarrow> exc + pdf" where
  "set_invalid_page_reference d widget fake_objid = Inl AttributeError"

text \<open>
  \<^verbatim>\<open>pdf.make_indirect(value)\<close>: the value becomes a new indirect object, here under the
  first object number above all used ones.
\<close>

definition fresh_objid :: "pdf \<Rightarrow> nat" where
  "fresh_objid d = Suc (fold max (map fst (objects d)) 0)"

definition make_indirect :: "pdf \<Rightarrow> pobj \<Rightarrow> pdf \<times> handle" where
  "make_indirect d v =
     (d\<lparr>objects := objects d @ [(fresh_objid d, v)]\<rparr>, Indirect (fresh_objid d) 0)"

section \<open>What the editor shows: log lines, message boxes and table rows\<close>

text \<open>
  The log lines and message boxes carry Cyrillic text in the source; each is a
  constructor here, with the values the source formats into it.
\<close>

datatype event =
    Log_error string exc
  | Log_done string
  | Log_undo
  | Log_found nat
  | Log_fitz_error exc
  | Log_pike_error exc
  | Log_rect_cleared string
  | Log_rect_deleted string
  | Log_no_rect string
  | Log_rect_set string "pyfloat list"
  | Log_p_deleted string
  | Log_no_p string
  | Log_p_emptied string
  | Log_p_set string int
  | Log_p_invalid string int
  | Show_error_open_first
  | Show_error_not_found
  | Show_error_select_field
  | Show_error_enter_number
  | Show_info_nothing_to_undo

datatype cell = CInt nat | CStr string | CObj pobj

text \<open>A row of the table: field name, physical page, linked page, link descriptor, rectangle.\<close>

type_synonym row = "cell \<times> nat \<times> cell \<times> string \<times> string"

text \<open>
  The two libraries and the Python built-ins the editor relies on, as parameters:
  parsing and saving with pikepdf, PyMuPDF's view of a buffer (the xref of each page, in
  order), \<^verbatim>\<open>str\<close> of a pikepdf object, \<^verbatim>\<open>str\<close> of a float where it is not modelled,
  \<^verbatim>\<open>float\<close> of an integer too large to be exact (\<^verbatim>\<open>None\<close> for OverflowError) and
  \<^verbatim>\<open>int\<close> of a string (\<^verbatim>\<open>None\<close> for ValueError).
\<close>

record 'b lib =
  pdf_open :: "'b \<Rightarrow> exc + pdf"
  pdf_save :: "pdf \<Rightarrow> exc + 'b"
  fitz_open :: "'b \<Rightarrow> exc + nat list"
  obj_str :: "pobj \<Rightarrow> string"
  float_str :: "pyfloat \<Rightarrow> string"
  big_float :: "int \<Rightarrow> pyfloat option"
  py_int :: "string \<Rightarrow> int option"

text \<open>
  The global variables \<^verbatim>\<open>current_pdf_bytes\<close> and \<^verbatim>\<open>undo_stack\<close>, with what the window
  shows: the log and message boxes so far (oldest first) and the rows of the table.
\<close>

record 'b app =
  current_pdf_bytes :: "'b option"
  undo_stack :: "'b list"
  events :: "event list"
  tree :: "row list"

definition log :: "event \<Rightarrow> 'b app \<Rightarrow> 'b app" where
  "log ev s = s\<lparr>events := events s @ [ev]\<rparr>"

subsection \<open>Printing numbers\<close>

fun str_nat :: "nat \<Rightarrow> string" where
  "str_nat n =
     (if n < 10 then [''0123456789'' ! n]
      else str_nat (n div 10) @ [''0123456789'' ! (n mod 10)])"

definition str_int :: "int \<Rightarrow> string" where
  "str_int i = (if i < 0 then ''-'' @ str_nat (nat (- i)) else str_nat (nat i))"

text \<open>
  \<^verbatim>\<open>str(f)\<close> of a float: an integer value below \<open>10\<^sup>1\<^sup>6\<close> in magnitude prints as its
  digits followed by \<^verbatim>\<open>.0\<close>; the exponent form of larger values and the digits of
  other floats are the library's.
\<close>

definition str_float :: "'b lib \<Rightarrow> pyfloat \<Rightarrow> string" where
  "str_float L f =
     (case f of
        Whole n \<Rightarrow> (if \<bar>n\<bar> < 10 ^ 16 then str_int n @ ''.0'' else float_str L f)
      | NonWhole k \<Rightarrow> float_str L f)"

text \<open>
  \<^verbatim>\<open>float(x)\<close> of a member of a rectangle: integers up to \<open>2\<^sup>5\<^sup>3\<close> are exact, reals
  carry their float, booleans count as 0 and 1, anything else raises.
\<close>

definition to_float :: "'b lib \<Rightarrow> pobj \<Rightarrow> pyfloat option" where
  "to_float L v =
     (case v of
        PInt n \<Rightarrow> (if \<bar>n\<bar> \<le> 2 ^ 53 then Some (Whole n) else big_float L n)
      | PReal f \<Rightarrow> Some f
      | PBool b \<Rightarrow> Some (Whole (if b then 1 else 0))
      | _ \<Rightarrow> None)"

fun join :: "string \<Rightarrow> string list \<Rightarrow> string" where
  "join sep [] = []"
| "join sep [x] = x"
| "join sep (x # y # ys) = x @ sep @ join sep (y # ys)"

section \<open>The field table: \<^verbatim>\<open>refresh_fields\<close>\<close>

text \<open>
  The scan \<^verbatim>\<open>for i in range(len(doc_fitz))\<close> for the first page whose xref is the
  target; the counter is the index of the head of the list.
\<close>

fun find_page :: "nat list \<Rightarrow> nat \<Rightarrow> nat \<Rightarrow> nat option" where
  "find_page [] target_xref i = None"
| "find_page (x # xs) target_xref i =
     (if x = target_xref then Some i else find_page xs target_xref (Suc i))"

text \<open>
  The column \<^verbatim>\<open>Page (/P)\<close>. A value without \<^verbatim>\<open>objgen\<close> raises inside the
  \<^verbatim>\<open>try\<close>, which gives \<^verbatim>\<open>(invalid)\<close> as well.
\<close>

definition page_num_cell :: "pdf \<Rightarrow> nat list \<Rightarrow> handle option \<Rightarrow> cell" where
  "page_num_cell d doc_fitz p_val =
     (case p_val of
        None \<Rightarrow> CStr []
      | Some h \<Rightarrow>
          (case objgen d h of
             None \<Rightarrow> CStr ''(invalid)''
           | Some ng \<Rightarrow>
               (case find_page doc_fitz (fst ng) 0 of
                  Some mapped_page_index \<Rightarrow> CInt (mapped_page_index + 1)
                | None \<Rightarrow> CStr ''(invalid)'')))"

text \<open>
  The column \<^verbatim>\<open>PageId\<close>. The test \<^verbatim>\<open>hasattr(p_val, "objgen")\<close> holds for every
  pikepdf object, with \<^verbatim>\<open>(0, 0)\<close> for a direct one, so \<^verbatim>\<open>(inline)\<close> is left to the
  plain Python values.
\<close>

definition page_id_str :: "pdf \<Rightarrow> handle option \<Rightarrow> string" where
  "page_id_str d p_val =
     (case p_val of
        None \<Rightarrow> []
      | Some h \<Rightarrow>
          (case objgen d h of
             Some ng \<Rightarrow> str_nat (fst ng) @ '' '' @ str_nat (snd ng) @ '' R''
           | None \<Rightarrow> ''(inline)''))"

text \<open>
  The column \<^verbatim>\<open>Rect\<close>: every member as a float, or \<^verbatim>\<open>str(rect)\<close> when the value
  cannot be iterated or a member is no number. A missing key is the Python list
  \<^verbatim>\<open>[]\<close>.
\<close>

definition rect_str :: "'b lib \<Rightarrow> pdf \<Rightarrow> handle option \<Rightarrow> string" where
  "rect_str L d rect =
     (case rect of
        None \<Rightarrow> ''[]''
      | Some h \<Rightarrow>
          (case obj_iter d h of
             Inl e \<Rightarrow> obj_str L (deref d h)
           | Inr xs \<Rightarrow>
               (case those (map (\<lambda>x. to_float L (deref d x)) xs) of
                  None \<Rightarrow> obj_str L (deref d h)
                | Some fs \<Rightarrow> ''['' @ join '', '' (map (str_float L) fs) @ '']'')))"

text \<open>The row of one widget annotation found on the page of index \<open>phys_page_index\<close>.\<close>

definition annot_row :: "'b lib \<Rightarrow> pdf \<Rightarrow> nat list \<Rightarrow> nat \<Rightarrow> handle \<Rightarrow> exc + row" where
  "annot_row L d doc_fitz phys_page_index annot =
     (case obj_get d annot ''/T'' of
        Inl e \<Rightarrow> Inl e
      | Inr t \<Rightarrow>
          (case obj_get d annot ''/Rect'' of
             Inl e \<Rightarrow> Inl e
           | Inr rect \<Rightarrow>
               (case obj_get d annot ''/P'' of
                  Inl e \<Rightarrow> Inl e
                | Inr p_val \<Rightarrow>
                    Inr ((case t of None \<Rightarrow> CStr [] | Some h \<Rightarrow> CObj (deref d h)),
                         phys_page_index + 1,
                         page_num_cell d doc_fitz p_val,
                         page_id_str d p_val,
                         rect_str L d rect))))"

text \<open>The loop over the annotations of one page; an annotation that is no widget is skipped.\<close>

fun annot_rows :: "'b lib \<Rightarrow> pdf \<Rightarrow> nat list \<Rightarrow> nat \<Rightarrow> handle list \<Rightarrow> exc + row list" where
  "annot_rows L d doc_fitz phys_page_index [] = Inr []"
| "annot_rows L d doc_fitz phys_page_index (annot # annots) =
     (case obj_get d annot ''/Subtype'' of
        Inl e \<Rightarrow> Inl e
      | Inr st \<Rightarrow>
          if \<not> eq_str d st ''/Widget'' then annot_rows L d doc_fitz phys_page_index annots
          else
            (case annot_row L d doc_fitz phys_page_index annot of
               Inl e \<Rightarrow> Inl e
             | Inr r \<Rightarrow>
                 (case annot_rows L d doc_fitz phys_page_index annots of
                    Inl e \<Rightarrow> Inl e
                  | Inr rs \<Rightarrow> Inr (r # rs))))"

text \<open>\<^verbatim>\<open>page.get("/Annots", [])\<close> and its members.\<close>

definition page_annots :: "pdf \<Rightarrow> handle \<Rightarrow> exc + handle list" where
  "page_annots d page =
     (case obj_get d page ''/Annots'' of
        Inl e \<Rightarrow> Inl e
      | Inr None \<Rightarrow> Inr []
      | Inr (Some annots) \<Rightarrow> obj_iter d annots)"

text \<open>
  The loop \<^verbatim>\<open>for phys_page_index, page in enumerate(pdf.pages)\<close>. The variable
  \<^verbatim>\<open>phys_page_xref\<close> it sets under its own \<^verbatim>\<open>try\<close> is never read and is left out.
\<close>

fun page_rows :: "'b lib \<Rightarrow> pdf \<Rightarrow> nat list \<Rightarrow> nat \<Rightarrow> (nat \<times> nat) list \<Rightarrow> exc + row list" where
  "page_rows L d doc_fitz phys_page_index [] = Inr []"
| "page_rows L d doc_fitz phys_page_index (page # ps) =
     (case page_annots d (Indirect (fst page) (snd page)) of
        Inl e \<Rightarrow> Inl e
      | Inr annots \<Rightarrow>
          (case annot_rows L d doc_fitz phys_page_index annots of
             Inl e \<Rightarrow> Inl e
           | Inr rs \<Rightarrow>
               (case page_rows L d doc_fitz (Suc phys_page_index) ps of
                  Inl e \<Rightarrow> Inl e
                | Inr rs' \<Rightarrow> Inr (rs @ rs'))))"

definition report_rows :: "'b lib \<Rightarrow> pdf \<Rightarrow> nat list \<Rightarrow> exc + row list" where
  "report_rows L d doc_fitz = page_rows L d doc_fitz 0 (pages d)"

text \<open>
  A callback of the window returns the state it leaves behind and the exception that
  escaped it, if any (Tk reports such an exception and goes on). In \<^verbatim>\<open>refresh_fields\<close>
  the two \<^verbatim>\<open>open\<close> calls are guarded, the loop over the annotations is not.
\<close>

definition refresh_fields :: "'b lib \<Rightarrow> 'b app \<Rightarrow> 'b app \<times> exc option" where
  "refresh_fields L s0 =
     (let s = s0\<lparr>tree := []\<rparr>
      in case current_pdf_bytes s of
           None \<Rightarrow> (s, None)
         | Some b \<Rightarrow>
             (case fitz_open L b of
                Inl e \<Rightarrow> (log (Log_fitz_error e) s, None)
              | Inr doc_fitz \<Rightarrow>
                  (case pdf_open L b of
                     Inl e \<Rightarrow> (log (Log_pike_error e) s, None)
                   | Inr d \<Rightarrow>
                       (case report_rows L d doc_fitz of
                          Inl e \<Rightarrow> (s, Some e)
                        | Inr rows \<Rightarrow> (log (Log_found (length rows)) (s\<lparr>tree := rows\<rparr>), None)))))"

section \<open>The document store: \<^verbatim>\<open>apply_change\<close> and \<^verbatim>\<open>action_undo\<close>\<close>

text \<open>
  A mutation procedure \<^verbatim>\<open>change_func(pdf)\<close> works on the freshly parsed document. It
  yields the log lines and message boxes it produced and either the exception it raised
  or its boolean result with the document as it left it.
\<close>

type_synonym change = "pdf \<Rightarrow> event list \<times> (exc + bool \<times> pdf)"

definition apply_change :: "'b lib \<Rightarrow> change \<Rightarrow> string \<Rightarrow> 'b app \<Rightarrow> 'b app \<times> exc option" where
  "apply_change L change_func action_name s =
     (case current_pdf_bytes s of
        None \<Rightarrow> (log Show_error_open_first s, None)
      | Some prev_bytes \<Rightarrow>
          (case pdf_open L prev_bytes of
             Inl e \<Rightarrow> (log (Log_error action_name e) s, None)
           | Inr d \<Rightarrow>
               (let s1 = s\<lparr>events := events s @ fst (change_func d)\<rparr>
                in case snd (change_func d) of
                     Inl e \<Rightarrow> (log (Log_error action_name e) s1, None)
                   | Inr r \<Rightarrow>
                       if \<not> fst r then (s1, None)
                       else
                         (case pdf_save L (snd r) of
                            Inl e \<Rightarrow> (log (Log_error action_name e) s1, None)
                          | Inr new_bytes \<Rightarrow>
                              (let s2 = s1\<lparr>undo_stack := undo_stack s1 @ [prev_bytes],
                                           current_pdf_bytes := Some new_bytes\<rparr>;
                                   s3 = (if action_name \<noteq> [] then log (Log_done action_name) s2
                                         else s2)
                               in refresh_fields L s3)))))"

definition action_undo :: "'b lib \<Rightarrow> 'b app \<Rightarrow> 'b app \<times> exc option" where
  "action_undo L s =
     (if undo_stack s = [] then (log Show_info_nothing_to_undo s, None)
      else
        refresh_fields L
          (log Log_undo
             (s\<lparr>current_pdf_bytes := Some (last (undo_stack s)),
                undo_stack := butlast (undo_stack s)\<rparr>)))"

section \<open>The mutation procedures of the buttons\<close>

text \<open>
  Every procedure starts with \<^verbatim>\<open>widget = load_widget(pdf, name)\<close> and
  \<^verbatim>\<open>if not widget:\<close>, which shows an error box and returns \<^verbatim>\<open>False\<close>.
\<close>

definition found_widget :: "pdf \<Rightarrow> string \<Rightarrow> exc + handle option" where
  "found_widget d name =
     (case load_widget d name of
        Inl e \<Rightarrow> Inl e
      | Inr w \<Rightarrow> Inr (if py_not d w then None else w))"

definition change_clear_rect :: "string \<Rightarrow> change" where
  "change_clear_rect name d =
     (case found_widget d name of
        Inl e \<Rightarrow> ([], Inl e)
      | Inr None \<Rightarrow> ([Show_error_not_found], Inr (False, d))
      | Inr (Some widget) \<Rightarrow>
          (case obj_setitem d widget ''/Rect'' (PArray []) of
             Inl e \<Rightarrow> ([], Inl e)
           | Inr d' \<Rightarrow> ([Log_rect_cleared name], Inr (True, d'))))"

definition change_delete_rect_key :: "string \<Rightarrow> change" where
  "change_delete_rect_key name d =
     (case found_widget d name of
        Inl e \<Rightarrow> ([], Inl e)
      | Inr None \<Rightarrow> ([Show_error_not_found], Inr (False, d))
      | Inr (Some widget) \<Rightarrow>
          (case obj_contains d widget ''/Rect'' of
             Inl e \<Rightarrow> ([], Inl e)
           | Inr has_rect \<Rightarrow>
               if has_rect then
                 (case obj_delitem d widget ''/Rect'' of
                    Inl e \<Rightarrow> ([], Inl e)
                  | Inr d' \<Rightarrow> ([Log_rect_deleted name], Inr (True, d')))
               else ([Log_no_rect name], Inr (False, d))))"

definition change_set_rect :: "string \<Rightarrow> pyfloat list \<Rightarrow> change" where
  "change_set_rect name rect d =
     (case found_widget d name of
        Inl e \<Rightarrow> ([], Inl e)
      | Inr None \<Rightarrow> ([Show_error_not_found], Inr (False, d))
      | Inr (Some widget) \<Rightarrow>
          (case obj_setitem d widget ''/Rect'' (PArray (map PReal rect)) of
             Inl e \<Rightarrow> ([], Inl e)
           | Inr d' \<Rightarrow> ([Log_rect_set name rect], Inr (True, d'))))"

text \<open>Both branches of the test for \<^verbatim>\<open>/P\<close> fall through to \<^verbatim>\<open>return True\<close>.\<close>

definition change_delete_p :: "string \<Rightarrow> change" where
  "change_delete_p name d =
     (case found_widget d name of
        Inl e \<Rightarrow> ([], Inl e)
      | Inr None \<Rightarrow> ([Show_error_not_found], Inr (False, d))
      | Inr (Some widget) \<Rightarrow>
          (case obj_contains d widget ''/P'' of
             Inl e \<Rightarrow> ([], Inl e)
           | Inr has_p \<Rightarrow>
               if has_p then
                 (case obj_delitem d widget ''/P'' of
                    Inl e \<Rightarrow> ([], Inl e)
                  | Inr d' \<Rightarrow> ([Log_p_deleted name], Inr (True, d')))
               else ([Log_no_p name], Inr (True, d))))"

definition change_set_p_empty :: "string \<Rightarrow> change" where
  "change_set_p_empty name d =
     (case found_widget d name of
        Inl e \<Rightarrow> ([], Inl e)
      | Inr None \<Rightarrow> ([Show_error_not_found], Inr (False, d))
      | Inr (Some widget) \<Rightarrow>
          (case obj_setitem d widget ''/P'' (PArray []) of
             Inl e \<Rightarrow> ([], Inl e)
           | Inr d' \<Rightarrow> ([Log_p_emptied name], Inr (True, d'))))"

text \<open>
  The procedure of \<^verbatim>\<open>action_set_p\<close> for the number \<open>page\<close> the operator typed. In
  its last branch \<^verbatim>\<open>fake_ref.objgen = (9999, 0)\<close> is an attribute assignment on a
  dictionary: it gives the new object the key \<^verbatim>\<open>/objgen\<close> and leaves its number alone.
\<close>

definition change_set_p :: "string \<Rightarrow> int \<Rightarrow> change" where
  "change_set_p name page d =
     (let page_index = page - 1
      in case found_widget d name of
           Inl e \<Rightarrow> ([], Inl e)
         | Inr None \<Rightarrow> ([Show_error_not_found], Inr (False, d))
         | Inr (Some widget) \<Rightarrow>
             (let num_pages = int (length (pages d))
              in if 0 \<le> page_index \<and> page_index < num_pages then
                   (case pages_getitem d page_index of
                      Inl e \<Rightarrow> ([], Inl e)
                    | Inr real_page \<Rightarrow>
                        (case obj_setitem d widget ''/P'' (encode d real_page) of
                           Inl e \<Rightarrow> ([], Inl e)
                         | Inr d1 \<Rightarrow>
                             (case fix_annots_page_binding d1 widget page_index of
                                Inl e \<Rightarrow> ([], Inl e)
                              | Inr d2 \<Rightarrow> ([Log_p_set name page], Inr (True, d2)))))
                 else
                   (let made = make_indirect d (PDict []);
                        fake_ref = snd made
                    in case obj_setattr (fst made) fake_ref ''objgen'' (PArray [PInt 9999, PInt 0]) of
                         Inl e \<Rightarrow> ([], Inl e)
                       | Inr d1 \<Rightarrow>
                           (case obj_setitem d1 widget ''/P'' (encode d1 fake_ref) of
                              Inl e \<Rightarrow> ([], Inl e)
                            | Inr d2 \<Rightarrow> ([Log_p_invalid name page], Inr (True, d2))))))"

section \<open>The buttons\<close>

text \<open>
  The selected row of the table and the answers to the dialogs are the operator's; they
  are arguments here (\<^verbatim>\<open>None\<close> for no selection and for a cancelled dialog).
\<close>

definition get_selected_field :: "string option \<Rightarrow> 'b app \<Rightarrow> 'b app \<times> string option" where
  "get_selected_field sel s =
     (case sel of
        None \<Rightarrow> (log Show_error_select_field s, None)
      | Some field_name \<Rightarrow> (s, Some field_name))"

text \<open>The common frame of the buttons: \<^verbatim>\<open>name = get_selected_field()\<close>, \<^verbatim>\<open>if not name: return\<close>.\<close>

definition with_selected ::
  "string option \<Rightarrow> (string \<Rightarrow> 'b app \<Rightarrow> 'b app \<times> exc option) \<Rightarrow> 'b app \<Rightarrow> 'b app \<times> exc option" where
  "with_selected sel body s =
     (case snd (get_selected_field sel s) of
        None \<Rightarrow> (fst (get_selected_field sel s), None)
      | Some name \<Rightarrow>
          if name = [] then (fst (get_selected_field sel s), None)
          else body name (fst (get_selected_field sel s)))"

definition action_clear_rect :: "'b lib \<Rightarrow> string option \<Rightarrow> 'b app \<Rightarrow> 'b app \<times> exc option" where
  "action_clear_rect L sel =
     with_selected sel
       (\<lambda>name. apply_change L (change_clear_rect name) ''Clear /Rect (empty array)'')"

definition action_delete_rect_key :: "'b lib \<Rightarrow> string option \<Rightarrow> 'b app \<Rightarrow> 'b app \<times> exc option" where
  "action_delete_rect_key L sel =
     with_selected sel (\<lambda>name. apply_change L (change_delete_rect_key name) ''Delete /Rect key'')"

definition action_set_rect ::
  "'b lib \<Rightarrow> string option \<Rightarrow> pyfloat option \<Rightarrow> pyfloat option \<Rightarrow> pyfloat option \<Rightarrow> pyfloat option
     \<Rightarrow> 'b app \<Rightarrow> 'b app \<times> exc option" where
  "action_set_rect L sel left bottom right top' =
     with_selected sel
       (\<lambda>name s.
          case left of None \<Rightarrow> (s, None) | Some l \<Rightarrow>
          (case bottom of None \<Rightarrow> (s, None) | Some b \<Rightarrow>
          (case right of None \<Rightarrow> (s, None) | Some r \<Rightarrow>
          (case top' of None \<Rightarrow> (s, None) | Some t \<Rightarrow>
             apply_change L (change_set_rect name [l, b, r, t]) ''Set /Rect'' s))))"

definition action_delete_p :: "'b lib \<Rightarrow> string option \<Rightarrow> 'b app \<Rightarrow> 'b app \<times> exc option" where
  "action_delete_p L sel =
     with_selected sel (\<lambda>name. apply_change L (change_delete_p name) ''Delete /P'')"

text \<open>
  \<^verbatim>\<open>str.strip()\<close>: white space is dropped at both ends. The operator's answer is a
  string of code points below 256; of these Python counts as white space the characters
  9 to 13, 28 to 32, 133 and 160.
\<close>

definition is_space :: "char \<Rightarrow> bool" where
  "is_space c =
     (c \<in> set [CHR 0x09, CHR 0x0A, CHR 0x0B, CHR 0x0C, CHR 0x0D,
                CHR 0x1C, CHR 0x1D, CHR 0x1E, CHR 0x1F, CHR 0x20, CHR 0x85, CHR 0xA0])"

definition strip :: "string \<Rightarrow> string" where
  "strip s = rev (dropWhile is_space (rev (dropWhile is_space s)))"

definition action_set_p ::
  "'b lib \<Rightarrow> string option \<Rightarrow> string option \<Rightarrow> 'b app \<Rightarrow> 'b app \<times> exc option" where
  "action_set_p L sel answer =
     with_selected sel
       (\<lambda>name s.
          case answer of
            None \<Rightarrow> (s, None)
          | Some typed \<Rightarrow>
              (let page_str = strip typed
               in if page_str = [] then
                    apply_change L (change_set_p_empty name) ''Set empty /P'' s
                  else
                    (case py_int L page_str of
                       None \<Rightarrow> (log Show_error_enter_number s, None)
                     | Some page \<Rightarrow> apply_change L (change_set_p name page) ''Set /P'' s)))"

section \<open>Example documents\<close>

text \<open>
  A small form: the catalog (object 1) holds the form dictionary inline; its field list
  names the widget \<open>A\<close> (object 3, with neither rectangle nor page link) and the group
  \<open>G\<close> (object 4), whose kids are an inline dictionary \<open>k1\<close> and the indirect widget
  \<open>k2\<close> (object 6). Objects 2 and 5 are the two pages: \<open>A\<close> is an annotation of
  the first, \<open>k2\<close> of the second, \<open>k1\<close> of none.
\<close>

definition example_doc :: pdf where
  "example_doc =
     \<lparr>objects =
        [(1, PDict [(''/Type'', PName ''/Catalog''),
                    (''/AcroForm'', PDict [(''/Fields'', PArray [PRef 3 0, PRef 4 0])])]),
         (2, PDict [(''/Type'', PName ''/Page''), (''/Annots'', PArray [PRef 3 0])]),
         (3, PDict [(''/T'', PStr ''A''), (''/Subtype'', PName ''/Widget'')]),
         (4, PDict [(''/T'', PStr ''G''),
                    (''/Kids'', PArray [PDict [(''/T'', PStr ''k1''),
                                               (''/Subtype'', PName ''/Widget'')],
                                        PRef 6 0])]),
         (5, PDict [(''/Type'', PName ''/Page''), (''/Annots'', PArray [PRef 6 0])]),
         (6, PDict [(''/T'', PStr ''k2''), (''/Subtype'', PName ''/Widget''),
                    (''/Rect'', PArray [PInt 1, PReal (Whole 2), PInt 3, PInt 4]),
                    (''/P'', PRef 5 0)])],
      Root = 1,
      pages = [(2, 0), (5, 0)]\<rparr>"

text \<open>
  The example document as three uses of "Set /P" leave it: on \<open>A\<close> with the answer
  \<^verbatim>\<open>7\<close> (the document has two pages), on \<open>A\<close> with the answer \<^verbatim>\<open>2\<close>, and on
  \<open>k2\<close> with an empty answer.
\<close>

definition example_doc_set_p_7 :: pdf where
  "example_doc_set_p_7 =
     example_doc\<lparr>objects :=
       AList.update 3
         (PDict [(''/T'', PStr ''A''), (''/Subtype'', PName ''/Widget''), (''/P'', PRef 7 0)])
         (objects example_doc @ [(7, PDict [(''/objgen'', PArray [PInt 9999, PInt 0])])])\<rparr>"

definition example_doc_set_p_2 :: pdf where
  "example_doc_set_p_2 =
     example_doc\<lparr>objects :=
       AList.update 3
         (PDict [(''/T'', PStr ''A''), (''/Subtype'', PName ''/Widget''), (''/P'', PRef 5 0)])
         (objects example_doc)\<rparr>"

definition example_doc_set_p_empty :: pdf where
  "example_doc_set_p_empty =
     example_doc\<lparr>objects :=
       AList.update 6
         (PDict [(''/T'', PStr ''k2''), (''/Subtype'', PName ''/Widget''),
                 (''/Rect'', PArray [PInt 1, PReal (Whole 2), PInt 3, PInt 4]),
                 (''/P'', PArray [])])
         (objects example_doc)\<rparr>"

text \<open>The number a plain string of decimal digits stands for.\<close>

fun digits_value :: "string \<Rightarrow> nat \<Rightarrow> nat option" where
  "digits_value [] acc = Some acc"
| "digits_value (c # cs) acc =
     (case map_of (zip ''0123456789'' [0..<10]) c of
        None \<Rightarrow> None
      | Some v \<Rightarrow> digits_value cs (10 * acc + v))"

text \<open>
  A stand-in for the libraries in which a buffer is the document itself: parsing and
  saving never fail and lose nothing, PyMuPDF reports the object number of each page, and
  \<^verbatim>\<open>int\<close> reads plain strings of digits.
\<close>

definition example_lib :: "pdf lib" where
  "example_lib =
     \<lparr>pdf_open = Inr, pdf_save = Inr, fitz_open = (\<lambda>d. Inr (map fst (pages d))),
      obj_str = (\<lambda>v. ''<object>''), float_str = (\<lambda>f. ''<float>''),
      big_float = (\<lambda>n. None),
      py_int = (\<lambda>s. if s = [] then None else map_option int (digits_value s 0))\<rparr>"

definition example_app :: "pdf app" where
  "example_app =
     \<lparr>current_pdf_bytes = Some example_doc, undo_stack = [], events = [], tree = []\<rparr>"

section \<open>The field locator as the specification words it\<close>












section \<open>The document store\<close>

lemma refresh_fields_store:
  "current_pdf_bytes (fst (refresh_fields L s)) = current_pdf_bytes s"
  "undo_stack (fst (refresh_fields L s)) = undo_stack s"
  by (simp_all add: refresh_fields_def log_def Let_def split: option.splits sum.splits)

lemma apply_change_commit:
  assumes "current_pdf_bytes s = Some prev_bytes" "pdf_open L prev_bytes = Inr d"
    "snd (change_func d) = Inr (True, d')" "pdf_save L d' = Inr new_bytes"
  shows "current_pdf_bytes (fst (apply_change L change_func action_name s)) = Some new_bytes"
    "undo_stack (fst (apply_change L change_func action_name s)) = undo_stack s @ [prev_bytes]"
  using assms
  by (simp_all add: apply_change_def Let_def refresh_fields_store log_def)

lemma apply_change_unchanged:
  assumes "current_pdf_bytes s = Some prev_bytes" "pdf_open L prev_bytes = Inr d"
    "change_func d = (evs, Inr (False, d'))"
  shows "apply_change L change_func action_name s = (s\<lparr>events := events s @ evs\<rparr>, None)"
  using assms by (simp add: apply_change_def Let_def)

lemma action_undo_pop:
  assumes "undo_stack s = st @ [b]"
  shows "current_pdf_bytes (fst (action_undo L s)) = Some b"
    "undo_stack (fst (action_undo L s)) = st"
  using assms by (simp_all add: action_undo_def refresh_fields_store log_def)

text \<open>
  C1. Whatever the mutation procedure and the action label: when the \<^verbatim>\<open>try\<close> block
  of \<^verbatim>\<open>apply_change\<close> raises, be it in parsing the current buffer, in the procedure or
  in saving the changed document, the current buffer stays the current one, nothing is
  pushed on the undo stack, the table is left alone, the error is the last line of the
  log and no exception leaves \<^verbatim>\<open>apply_change\<close>.
\<close>

theorem apply_change_failure_keeps_store:
  assumes cur: "current_pdf_bytes s = Some prev_bytes"
    and fails:
      "pdf_open L prev_bytes = Inl e
       \<or> (\<exists>d. pdf_open L prev_bytes = Inr d \<and> snd (change_func d) = Inl e)
       \<or> (\<exists>d d'. pdf_open L prev_bytes = Inr d \<and> snd (change_func d) = Inr (True, d')
            \<and> pdf_save L d' = Inl e)"
  shows "current_pdf_bytes (fst (apply_change L change_func action_name s)) = Some prev_bytes
     \<and> undo_stack (fst (apply_change L change_func action_name s)) = undo_stack s
     \<and> tree (fst (apply_change L change_func action_name s)) = tree s
     \<and> last (events (fst (apply_change L change_func action_name s))) = Log_error action_name e
     \<and> snd (apply_change L change_func action_name s) = None"
  using fails
proof (elim disjE exE conjE)
  assume "pdf_open L prev_bytes = Inl e"
  with cur show ?thesis by (simp add: apply_change_def log_def)
next
  fix d assume "pdf_open L prev_bytes = Inr d" "snd (change_func d) = Inl e"
  with cur show ?thesis by (simp add: apply_change_def log_def Let_def)
next
  fix d d' assume "pdf_open L prev_bytes = Inr d" "snd (change_func d) = Inr (True, d')"
    "pdf_save L d' = Inl e"
  with cur show ?thesis by (simp add: apply_change_def log_def Let_def)
qed

theorem apply_change_failure_keeps_store_witness:
  "current_pdf_bytes example_app = Some example_doc
   \<and> pdf_open example_lib example_doc = Inr example_doc
   \<and> snd ((\<lambda>d. ([Log_no_p ''A''], Inl KeyError)) example_doc) = Inl KeyError
   \<and> current_pdf_bytes
        (fst (apply_change example_lib (\<lambda>d. ([Log_no_p ''A''], Inl KeyError)) ''Delete /P''
                example_app)) = Some example_doc
   \<and> undo_stack
        (fst (apply_change example_lib (\<lambda>d. ([Log_no_p ''A''], Inl KeyError)) ''Delete /P''
                example_app)) = []
   \<and> last (events
        (fst (apply_change example_lib (\<lambda>d. ([Log_no_p ''A''], Inl KeyError)) ''Delete /P''
                example_app))) = Log_error ''Delete /P'' KeyError"
proof -
  have h1: "current_pdf_bytes example_app = Some example_doc"
    by (simp add: example_app_def)
  have h2: "pdf_open example_lib example_doc = Inr example_doc"
    by (simp add: example_lib_def)
  have h3: "undo_stack example_app = []"
    by (simp add: example_app_def)
  show ?thesis
    using h1 h2 h3
      apply_change_failure_keeps_store
        [of example_app example_doc example_lib KeyError
            "\<lambda>d. ([Log_no_p ''A''], Inl KeyError)" "''Delete /P''"]
    by simp
qed

text \<open>
  C3. After a mutation that went through (the buffer parsed, the procedure reported a
  change, the document was saved), \<^verbatim>\<open>action_undo\<close> makes the buffer that was current
  before the mutation the current one again, the very same value, and the undo stack is
  what it was before the mutation, so of the same length.
\<close>

theorem undo_restores_previous_buffer:
  assumes "current_pdf_bytes s = Some prev_bytes" "pdf_open L prev_bytes = Inr d"
    "snd (change_func d) = Inr (True, d')" "pdf_save L d' = Inr new_bytes"
  shows "current_pdf_bytes (fst (apply_change L change_func action_name s)) = Some new_bytes
     \<and> undo_stack (fst (apply_change L change_func action_name s)) = undo_stack s @ [prev_bytes]
     \<and> current_pdf_bytes
          (fst (action_undo L (fst (apply_change L change_func action_name s)))) = Some prev_bytes
     \<and> undo_stack
          (fst (action_undo L (fst (apply_change L change_func action_name s)))) = undo_stack s
     \<and> length (undo_stack
          (fst (action_undo L (fst (apply_change L change_func action_name s)))))
        = length (undo_stack s)"
proof -
  let ?s1 = "fst (apply_change L change_func action_name s)"
  have c: "current_pdf_bytes ?s1 = Some new_bytes"
    and u: "undo_stack ?s1 = undo_stack s @ [prev_bytes]"
    using assms by (rule apply_change_commit)+
  from u have "current_pdf_bytes (fst (action_undo L ?s1)) = Some prev_bytes"
    and "undo_stack (fst (action_undo L ?s1)) = undo_stack s"
    by (rule action_undo_pop)+
  with c u show ?thesis by simp
qed

theorem undo_restores_previous_buffer_witness:
  "current_pdf_bytes example_app = Some example_doc
   \<and> snd (change_clear_rect ''A'' example_doc)
       = Inr (True, example_doc\<lparr>objects :=
            AList.update 3
              (PDict [(''/T'', PStr ''A''), (''/Subtype'', PName ''/Widget''),
                      (''/Rect'', PArray [])])
              (objects example_doc)\<rparr>)
   \<and> current_pdf_bytes
        (fst (action_undo example_lib
           (fst (apply_change example_lib (change_clear_rect ''A'') ''Clear /Rect (empty array)''
                   example_app)))) = Some example_doc
   \<and> undo_stack
        (fst (action_undo example_lib
           (fst (apply_change example_lib (change_clear_rect ''A'') ''Clear /Rect (empty array)''
                   example_app)))) = []"
proof -
  let ?d' = "example_doc\<lparr>objects :=
            AList.update 3
              (PDict [(''/T'', PStr ''A''), (''/Subtype'', PName ''/Widget''),
                      (''/Rect'', PArray [])])
              (objects example_doc)\<rparr>"
  have h1: "current_pdf_bytes example_app = Some example_doc"
    by (simp add: example_app_def)
  have h2: "pdf_open example_lib example_doc = Inr example_doc"
    by (simp add: example_lib_def)
  have h3: "snd (change_clear_rect ''A'' example_doc) = Inr (True, ?d')"
    by code_simp
  have h4: "pdf_save example_lib ?d' = Inr ?d'"
    by (simp add: example_lib_def)
  have h5: "undo_stack example_app = []"
    by (simp add: example_app_def)
  show ?thesis
    using h1 h2 h3 h4 h5
      undo_restores_previous_buffer
        [where s = example_app and prev_bytes = example_doc and L = example_lib
           and d = example_doc and change_func = "change_clear_rect ''A''" and d' = "?d'"
           and new_bytes = "?d'" and action_name = "''Clear /Rect (empty array)''"]
    by simp
qed

text \<open>
  C10. \<^verbatim>\<open>action_undo\<close> with an empty undo stack shows the information box and
  returns: the current buffer and the (empty) stack are what they were, the table is not
  rebuilt, and no exception leaves the function.
\<close>

theorem undo_on_empty_history:
  assumes "undo_stack s = []"
  shows "action_undo L s = (s\<lparr>events := events s @ [Show_info_nothing_to_undo]\<rparr>, None)
     \<and> current_pdf_bytes (fst (action_undo L s)) = current_pdf_bytes s
     \<and> undo_stack (fst (action_undo L s)) = []
     \<and> snd (action_undo L s) = None"
  using assms by (simp add: action_undo_def log_def)

theorem undo_on_empty_history_witness:
  "undo_stack example_app = []
   \<and> action_undo example_lib example_app
       = (example_app\<lparr>events := [Show_info_nothing_to_undo]\<rparr>, None)"
proof -
  have h: "undo_stack example_app = []"
    by (simp add: example_app_def)
  have e: "events example_app = []"
    by (simp add: example_app_def)
  show ?thesis
    using h e undo_on_empty_history [OF h, of example_lib] by simp
qed

section \<open>Reading and writing through handles\<close>











section \<open>What \<^verbatim>\<open>load_widget\<close> returns\<close>

lemma obj_get_eq_str_dict:
  assumes "obj_get d w k = Inr t" "eq_str d t name"
  shows "\<exists>kvs. deref d w = PDict kvs \<and> map_of kvs k \<noteq> None"
  using assms
  by (cases "deref d w") (auto simp: obj_get_def eq_str_def member_of_def split: if_splits)

lemma find_kid_named:
  "find_kid d name ks = Inr (Some w) \<Longrightarrow> \<exists>t. obj_get d w ''/T'' = Inr t \<and> eq_str d t name"
  by (induction ks) (auto simp: Let_def split: sum.splits if_splits)

lemma search_kids_named:
  "search_kids d name f = Inr (Some w) \<Longrightarrow> \<exists>t. obj_get d w ''/T'' = Inr t \<and> eq_str d t name"
  by (auto simp: search_kids_def split: sum.splits if_splits dest: find_kid_named)

lemma find_field_named:
  "find_field d name fs = Inr (Some w) \<Longrightarrow> \<exists>t. obj_get d w ''/T'' = Inr t \<and> eq_str d t name"
proof (induction fs)
  case Nil
  then show ?case by simp
next
  case (Cons f fs)
  then show ?case
    by (auto simp: Let_def split: sum.splits option.splits if_splits dest: search_kids_named)
qed

lemma load_widget_named:
  "load_widget d name = Inr (Some w) \<Longrightarrow> \<exists>t. obj_get d w ''/T'' = Inr t \<and> eq_str d t name"
  by (auto simp: load_widget_def Let_def split: sum.splits if_splits dest: find_field_named)

text \<open>A field that was found is a dictionary with the key \<^verbatim>\<open>/T\<close>, so it is not falsy.\<close>

lemma load_widget_dict:
  assumes "load_widget d name = Inr (Some w)"
  shows "\<exists>kvs. deref d w = PDict kvs \<and> map_of kvs ''/T'' \<noteq> None"
  using load_widget_named[OF assms] obj_get_eq_str_dict by blast

lemma found_widget_load:
  assumes "load_widget d name = Inr (Some w)"
  shows "found_widget d name = Inr (Some w)"
proof -
  from load_widget_dict[OF assms] obtain kvs
    where "deref d w = PDict kvs" "map_of kvs ''/T'' \<noteq> None"
    by blast
  then have "\<not> py_not d (Some w)" by (auto simp: py_not_def)
  with assms show ?thesis by (simp add: found_widget_def)
qed

section \<open>The rectangle and page-link buttons\<close>

text \<open>
  C7. For a buffer that parses and a field that \<^verbatim>\<open>load_widget\<close> finds and that has no
  \<^verbatim>\<open>/Rect\<close> key, the procedure of "Delete /Rect" logs that there is nothing to delete
  and returns \<^verbatim>\<open>False\<close> with the document as it was; the button then leaves the
  current buffer (the same value) and the undo stack as they were, and raises nothing.
\<close>

theorem delete_rect_key_absent_is_noop:
  assumes cur: "current_pdf_bytes s = Some b"
    and parse: "pdf_open L b = Inr d"
    and located: "load_widget d name = Inr (Some w)"
    and no_rect: "obj_contains d w ''/Rect'' = Inr False"
  shows "change_delete_rect_key name d = ([Log_no_rect name], Inr (False, d))
     \<and> current_pdf_bytes (fst (action_delete_rect_key L (Some name) s)) = Some b
     \<and> undo_stack (fst (action_delete_rect_key L (Some name) s)) = undo_stack s
     \<and> snd (action_delete_rect_key L (Some name) s) = None"
proof -
  have ch: "change_delete_rect_key name d = ([Log_no_rect name], Inr (False, d))"
    using found_widget_load[OF located] no_rect by (simp add: change_delete_rect_key_def)
  have "apply_change L (change_delete_rect_key name) ''Delete /Rect key'' s
          = (s\<lparr>events := events s @ [Log_no_rect name]\<rparr>, None)"
    using cur parse ch by (rule apply_change_unchanged)
  then show ?thesis
    using ch cur by (simp add: action_delete_rect_key_def with_selected_def get_selected_field_def)
qed

theorem delete_rect_key_absent_is_noop_witness:
  "current_pdf_bytes example_app = Some example_doc
   \<and> pdf_open example_lib example_doc = Inr example_doc
   \<and> load_widget example_doc ''A'' = Inr (Some (Indirect 3 0))
   \<and> obj_contains example_doc (Indirect 3 0) ''/Rect'' = Inr False
   \<and> change_delete_rect_key ''A'' example_doc = ([Log_no_rect ''A''], Inr (False, example_doc))
   \<and> current_pdf_bytes (fst (action_delete_rect_key example_lib (Some ''A'') example_app))
       = Some example_doc
   \<and> undo_stack (fst (action_delete_rect_key example_lib (Some ''A'') example_app)) = []"
proof -
  have h1: "current_pdf_bytes example_app = Some example_doc"
    by (simp add: example_app_def)
  have h2: "pdf_open example_lib example_doc = Inr example_doc"
    by (simp add: example_lib_def)
  have h3: "load_widget example_doc ''A'' = Inr (Some (Indirect 3 0))"
    by code_simp
  have h4: "obj_contains example_doc (Indirect 3 0) ''/Rect'' = Inr False"
    by code_simp
  have h5: "undo_stack example_app = []"
    by (simp add: example_app_def)
  show ?thesis
    using h1 h2 h3 h4 h5 delete_rect_key_absent_is_noop [OF h1 h2 h3 h4] by simp
qed

text \<open>
  C2 (the code does otherwise). The field \<open>A\<close> of the example document has no
  \<^verbatim>\<open>/P\<close> key. The procedure of "Delete /P" logs that there is nothing to delete and
  still returns \<^verbatim>\<open>True\<close>, so \<^verbatim>\<open>apply_change\<close> saves the unchanged document and
  pushes the previous buffer on the undo stack.
\<close>

theorem delete_p_absent_reports_change:
  "load_widget example_doc ''A'' = Inr (Some (Indirect 3 0))
   \<and> obj_contains example_doc (Indirect 3 0) ''/P'' = Inr False
   \<and> change_delete_p ''A'' example_doc = ([Log_no_p ''A''], Inr (True, example_doc))
   \<and> current_pdf_bytes example_app = Some example_doc
   \<and> undo_stack example_app = []
   \<and> undo_stack (fst (action_delete_p example_lib (Some ''A'') example_app)) = [example_doc]"
  by code_simp




section \<open>The field locator against its specification\<close>















section \<open>"Set /P" with a page number, and the table afterwards\<close>

text \<open>
  C4 (the code does otherwise). The example document has two pages; the operator selects
  the field \<open>A\<close> (object 3) and answers \<^verbatim>\<open>7\<close>. The procedure makes a new indirect
  object, which gets the number 7, and \<^verbatim>\<open>fake_ref.objgen = (9999, 0)\<close> gives that
  object the key \<^verbatim>\<open>/objgen\<close> with the value \<^verbatim>\<open>[9999 0]\<close>; the field's \<^verbatim>\<open>/P\<close>
  becomes \<^verbatim>\<open>7 0 R\<close>, a reference to this real object, and not the dangling reference
  \<^verbatim>\<open>9999 0 R\<close> that the log line announces. The annotation lists of both pages are
  what they were, and the table shows \<^verbatim>\<open>(invalid)\<close> for the field, with the descriptor
  \<^verbatim>\<open>7 0 R\<close>. The helper \<^verbatim>\<open>set_invalid_page_reference\<close>, written for the same
  purpose, raises and writes nothing.
\<close>

theorem set_p_out_of_range_links_new_object:
  "load_widget example_doc ''A'' = Inr (Some (Indirect 3 0))
   \<and> length (pages example_doc) = 2
   \<and> py_int example_lib (strip ''7'') = Some 7
   \<and> change_set_p ''A'' 7 example_doc
       = ([Log_p_invalid ''A'' 7], Inr (True, example_doc_set_p_7))
   \<and> current_pdf_bytes (fst (action_set_p example_lib (Some ''A'') (Some ''7'') example_app))
       = Some example_doc_set_p_7
   \<and> obj_get example_doc_set_p_7 (Indirect 3 0) ''/P'' = Inr (Some (Indirect 7 0))
   \<and> deref example_doc_set_p_7 (Indirect 7 0)
       = PDict [(''/objgen'', PArray [PInt 9999, PInt 0])]
   \<and> set_invalid_page_reference example_doc (Indirect 3 0) 9999 = Inl AttributeError
   \<and> page_annots example_doc (Indirect 2 0) = Inr [Indirect 3 0]
   \<and> page_annots example_doc_set_p_7 (Indirect 2 0) = Inr [Indirect 3 0]
   \<and> page_annots example_doc (Indirect 5 0) = Inr [Indirect 6 0]
   \<and> page_annots example_doc_set_p_7 (Indirect 5 0) = Inr [Indirect 6 0]
   \<and> tree (fst (action_set_p example_lib (Some ''A'') (Some ''7'') example_app))
       = [(CObj (PStr ''A''), 1, CStr ''(invalid)'', ''7 0 R'', ''[]''),
          (CObj (PStr ''k2''), 2, CInt 2, ''5 0 R'', ''[1.0, 2.0, 3.0, 4.0]'')]"
  by code_simp

text \<open>
  C5 (the code does otherwise). In the example document the field \<open>A\<close> (object 3) is an
  annotation of the first page only; the operator selects it and answers \<^verbatim>\<open>2\<close>. The
  field's \<^verbatim>\<open>/P\<close> becomes the reference to the second page (object 5), as stated. But
  the field has no \<^verbatim>\<open>objid\<close>, the guard of \<^verbatim>\<open>fix_annots_page_binding\<close> fails and
  nothing is appended: the annotation list of the second page is still the one widget
  \<open>k2\<close>, and the table has no row for \<open>A\<close> on page 2 (its one row is on page 1, with
  the linked page 2).
\<close>

theorem set_p_valid_page_appends_nothing:
  "load_widget example_doc ''A'' = Inr (Some (Indirect 3 0))
   \<and> objid (Indirect 3 0) = None
   \<and> pages_getitem example_doc 1 = Inr (Indirect 5 0)
   \<and> page_annots example_doc (Indirect 5 0) = Inr [Indirect 6 0]
   \<and> py_int example_lib (strip ''2'') = Some 2
   \<and> change_set_p ''A'' 2 example_doc = ([Log_p_set ''A'' 2], Inr (True, example_doc_set_p_2))
   \<and> current_pdf_bytes (fst (action_set_p example_lib (Some ''A'') (Some ''2'') example_app))
       = Some example_doc_set_p_2
   \<and> obj_get example_doc_set_p_2 (Indirect 3 0) ''/P'' = Inr (Some (Indirect 5 0))
   \<and> page_annots example_doc_set_p_2 (Indirect 5 0) = Inr [Indirect 6 0]
   \<and> tree (fst (action_set_p example_lib (Some ''A'') (Some ''2'') example_app))
       = [(CObj (PStr ''A''), 1, CInt 2, ''5 0 R'', ''[]''),
          (CObj (PStr ''k2''), 2, CInt 2, ''5 0 R'', ''[1.0, 2.0, 3.0, 4.0]'')]"
  by code_simp

text \<open>
  C9 (the code does otherwise). The operator selects \<open>k2\<close> (object 6, on the second
  page) and gives "Set /P" an empty answer, so the field's \<^verbatim>\<open>/P\<close> is the empty array, a
  value that is no reference. \<^verbatim>\<open>refresh_fields\<close> then builds one row for each widget, in
  page order, with the name, the physical page, \<^verbatim>\<open>(invalid)\<close> as the linked page and
  the rectangle as floats, all as stated; but the link descriptor reads \<^verbatim>\<open>0 0 R\<close> where
  \<^verbatim>\<open>(inline)\<close> is stated, because the empty array has an \<^verbatim>\<open>objgen\<close> too. The last
  part is "Set /Rect" with 10, 20, 300 and 400 on \<open>A\<close>: the table then shows the
  rectangle \<^verbatim>\<open>[10.0, 20.0, 300.0, 400.0]\<close>.
\<close>

theorem field_table_inline_link_descriptor:
  "current_pdf_bytes (fst (action_set_p example_lib (Some ''k2'') (Some []) example_app))
       = Some example_doc_set_p_empty
   \<and> obj_get example_doc_set_p_empty (Indirect 6 0) ''/P'' = Inr (Some (Direct 6 [Key ''/P'']))
   \<and> deref example_doc_set_p_empty (Direct 6 [Key ''/P'']) = PArray []
   \<and> objgen example_doc_set_p_empty (Direct 6 [Key ''/P'']) = Some (0, 0)
   \<and> refresh_fields example_lib (example_app\<lparr>current_pdf_bytes := Some example_doc_set_p_empty\<rparr>)
       = (example_app
            \<lparr>current_pdf_bytes := Some example_doc_set_p_empty,
             events := [Log_found 2],
             tree := [(CObj (PStr ''A''), 1, CStr [], [], ''[]''),
                      (CObj (PStr ''k2''), 2, CStr ''(invalid)'', ''0 0 R'',
                       ''[1.0, 2.0, 3.0, 4.0]'')]\<rparr>,
          None)
   \<and> tree (fst (action_set_p example_lib (Some ''k2'') (Some []) example_app))
       = [(CObj (PStr ''A''), 1, CStr [], [], ''[]''),
          (CObj (PStr ''k2''), 2, CStr ''(invalid)'', ''0 0 R'', ''[1.0, 2.0, 3.0, 4.0]'')]
   \<and> tree (fst (action_set_rect example_lib (Some ''A'')
                  (Some (Whole 10)) (Some (Whole 20)) (Some (Whole 300)) (Some (Whole 400))
                  example_app))
       = [(CObj (PStr ''A''), 1, CStr [], [], ''[10.0, 20.0, 300.0, 400.0]''),
          (CObj (PStr ''k2''), 2, CInt 2, ''5 0 R'', ''[1.0, 2.0, 3.0, 4.0]'')]"
  by code_simp

end
